theory Spec2Isabelle
  imports Complex_Main
begin

section \<open>Box-like data of a PDF page: an embedding of \<^verbatim>\<open>pdftables/boxes.py\<close>\<close>

text \<open>
  The module describes glyphs and rectangles of a PDF page as boxes. Embedded here are
  \<^verbatim>\<open>Rectangle\<close>, \<^verbatim>\<open>Box\<close> with \<^verbatim>\<open>copy\<close>, \<^verbatim>\<open>is_connected_to\<close>, \<^verbatim>\<open>extend\<close>,
  \<^verbatim>\<open>clip\<close> and the four edge properties, the sentinel \<^verbatim>\<open>Box.empty_box\<close>, and of
  \<^verbatim>\<open>BoxList\<close> the methods \<^verbatim>\<open>inside\<close>, \<^verbatim>\<open>bounds\<close> and \<^verbatim>\<open>purge_empty_text\<close>.
  \<^verbatim>\<open>Histogram.rounder\<close> with \<^verbatim>\<open>_rounder\<close> is embedded over an arithmetic that is a
  parameter, since it computes with floats.
\<close>

subsection \<open>Coordinates\<close>

text \<open>
  Coordinates are Python numbers. The module itself builds boxes whose edges are
  \<^verbatim>\<open>float("+inf")\<close> and \<^verbatim>\<open>float("-inf")\<close>, so a coordinate is a finite number or one of
  the two infinities. Finite numbers are taken as rationals (every finite float and every
  Python int is one); the comparisons, \<^verbatim>\<open>max\<close> and \<^verbatim>\<open>min\<close> the code applies to them are
  exact on floats, so the order of \<open>coord\<close> is the order the program sees. NaN is not a
  coordinate.
\<close>

datatype coord = MInf | Fin rat | PInf

instantiation coord :: linorder
begin

fun less_eq_coord :: "coord \<Rightarrow> coord \<Rightarrow> bool" where
  "less_eq_coord MInf _ = True"
| "less_eq_coord (Fin a) MInf = False"
| "less_eq_coord (Fin a) (Fin b) = (a \<le> b)"
| "less_eq_coord (Fin a) PInf = True"
| "less_eq_coord PInf PInf = True"
| "less_eq_coord PInf _ = False"

definition less_coord :: "coord \<Rightarrow> coord \<Rightarrow> bool" where
  "less_coord a b = (a \<le> b \<and> \<not> b \<le> a)"

instance
proof
  fix a b c :: coord
  show "(a < b) = (a \<le> b \<and> \<not> b \<le> a)"
    by (simp add: less_coord_def)
  show "a \<le> a"
    by (cases a) simp_all
  show "a \<le> b \<Longrightarrow> b \<le> c \<Longrightarrow> a \<le> c"
    by (cases a; cases b; cases c) simp_all
  show "a \<le> b \<Longrightarrow> b \<le> a \<Longrightarrow> a = b"
    by (cases a; cases b) simp_all
  show "a \<le> b \<or> b \<le> a"
    by (cases a; cases b) auto
qed

end

subsection \<open>Rectangle and Box\<close>

text \<open>
  \<^verbatim>\<open>Rectangle\<close> is the namedtuple \<^verbatim>\<open>(x1, y1, x2, y2)\<close>. A \<^verbatim>\<open>Box\<close> object holds the
  attributes \<^verbatim>\<open>__init__\<close> sets: \<^verbatim>\<open>rect\<close>, \<^verbatim>\<open>text\<close>, \<^verbatim>\<open>barycenter\<close> and
  \<^verbatim>\<open>barycenter_y\<close>, the last three \<^verbatim>\<open>None\<close> unless given. \<^verbatim>\<open>classname\<close> is an attribute
  that \<^verbatim>\<open>BoxList\<close> reads but \<^verbatim>\<open>__init__\<close> never sets: \<open>None\<close> stands for its absence.
  The attribute \<^verbatim>\<open>text\<close> is the field \<open>btext\<close>. A text is the list of its
  characters, each given by its number (see \<^verbatim>\<open>is_connected_to\<close> below).
\<close>

record rectangle =
  x1 :: coord
  y1 :: coord
  x2 :: coord
  y2 :: coord

type_synonym pystr = "nat list"

record box =
  rect :: rectangle
  btext :: "pystr option"
  barycenter :: "(rat \<times> rat) option"
  barycenter_y :: "rat option"
  classname :: "pystr option"

text \<open>A text written in ASCII, as in the literals of the source.\<close>

definition ascii :: "string \<Rightarrow> pystr" where
  "ascii s = map of_char s"

datatype error = AttributeError | TypeError | ValueError | ZeroDivisionError

text \<open>
  A \<^verbatim>\<open>Counter\<close> or \<^verbatim>\<open>Histogram\<close> object: its class, and the items of the dict in
  iteration order. The arithmetic on the keys of a histogram: 1.0, 0, product, quotient
  and \<^verbatim>\<open>round\<close>.
\<close>

datatype cls = Counter | Histogram

record 'k counter =
  klass :: cls
  entries :: "('k \<times> int) list"

record 'k arith =
  a_one :: 'k
  a_zero :: 'k
  a_mul :: "'k \<Rightarrow> 'k \<Rightarrow> 'k"
  a_div :: "'k \<Rightarrow> 'k \<Rightarrow> 'k"
  a_round :: "'k \<Rightarrow> 'k"

text \<open>
  The properties \<^verbatim>\<open>left\<close>, \<^verbatim>\<open>top\<close>, \<^verbatim>\<open>right\<close>, \<^verbatim>\<open>bottom\<close>: \<^verbatim>\<open>self.rect[0..3]\<close>.
  (\<^verbatim>\<open>top\<close> is \<open>top_edge\<close>: \<open>top\<close> is the greatest element of an order in HOL.)
\<close>

definition left :: "box \<Rightarrow> coord" where
  "left b = x1 (rect b)"

definition top_edge :: "box \<Rightarrow> coord" where
  "top_edge b = y1 (rect b)"

definition right :: "box \<Rightarrow> coord" where
  "right b = x2 (rect b)"

definition bottom :: "box \<Rightarrow> coord" where
  "bottom b = y2 (rect b)"

text \<open>
  \<^verbatim>\<open>Box.__init__(rect, text=None, barycenter=None, barycenter_y=None)\<close>: the state of
  the new object. The \<^verbatim>\<open>isinstance\<close> check that raises \<^verbatim>\<open>RuntimeError\<close> is the type of
  the first argument here.
\<close>

definition Box_init ::
  "rectangle \<Rightarrow> pystr option \<Rightarrow> (rat \<times> rat) option \<Rightarrow> rat option \<Rightarrow> box" where
  "Box_init r t bc bcy =
     \<lparr>rect = r, btext = t, barycenter = bc, barycenter_y = bcy, classname = None\<rparr>"

subsection \<open>The object store\<close>

text \<open>
  Boxes are objects: \<^verbatim>\<open>extend\<close> changes one in place and \<^verbatim>\<open>clip\<close> returns either a new
  object or the one shared \<^verbatim>\<open>Box.empty_box\<close>. The store is the list of all box objects
  made so far and a reference is an index into it; the references a program holds are
  below the length of the store. Making an object appends it. \<^verbatim>\<open>Box.empty_box\<close> is
  made when the module is loaded, before any other box, so it is the object at index 0.
\<close>

type_synonym ref = nat

type_synonym heap = "box list"

definition alloc :: "heap \<Rightarrow> box \<Rightarrow> ref \<times> heap" where
  "alloc h obj = (length h, h @ [obj])"

definition empty_rect :: rectangle where
  "empty_rect = \<lparr>x1 = PInf, y1 = PInf, x2 = MInf, y2 = MInf\<rparr>"

definition empty_box :: ref where
  "empty_box = 0"

definition module_heap :: heap where
  "module_heap = snd (alloc [] (Box_init empty_rect None None None))"

text \<open>A store the program can be in: the sentinel is there, as the module made it.\<close>

definition wf_heap :: "heap \<Rightarrow> bool" where
  "wf_heap h = (h \<noteq> [] \<and> h ! empty_box = Box_init empty_rect None None None)"

subsection \<open>\<^verbatim>\<open>Box.clip\<close>\<close>

text \<open>
  The loop of \<^verbatim>\<open>clip\<close> over its arguments, on the running rectangle
  \<^verbatim>\<open>(x1, y1, x2, y2)\<close>. \<open>None\<close> is the early \<^verbatim>\<open>return Box.empty_box\<close>. The arguments
  are objects with \<^verbatim>\<open>left\<close>, \<^verbatim>\<open>top\<close>, \<^verbatim>\<open>right\<close> and \<^verbatim>\<open>bottom\<close>: boxes (a
  \<^verbatim>\<open>Rectangle\<close> has none of the four). After the loop \<^verbatim>\<open>clip\<close> makes
  \<^verbatim>\<open>type(self)(Rectangle(...))\<close>, a \<^verbatim>\<open>Box\<close> with the three other attributes at their
  default \<^verbatim>\<open>None\<close>.
\<close>

fun clip_loop :: "rectangle \<Rightarrow> box list \<Rightarrow> rectangle option" where
  "clip_loop r [] = Some r"
| "clip_loop r (rectangle # rectangles) =
     (let r' = \<lparr>x1 = max (x1 r) (left rectangle), y1 = max (y1 r) (top_edge rectangle),
                x2 = min (x2 r) (right rectangle), y2 = min (y2 r) (bottom rectangle)\<rparr>
      in if x1 r' > x2 r' \<or> y1 r' > y2 r' then None else clip_loop r' rectangles)"

definition clip :: "heap \<Rightarrow> ref \<Rightarrow> ref list \<Rightarrow> ref \<times> heap" where
  "clip h self rectangles =
     (case clip_loop (rect (h ! self)) (map (\<lambda>p. h ! p) rectangles) of
        None \<Rightarrow> (empty_box, h)
      | Some r \<Rightarrow> alloc h (Box_init r None None None))"

text \<open>
  The running intersection the loop computes, without its early exit: one step is
  \<open>isect\<close>, a rectangle is \<open>inverted\<close> when \<^verbatim>\<open>x1 > x2 or y1 > y2\<close>, and
  \<open>running h b rs\<close> is the intersection of box \<open>b\<close> with all of \<open>rs\<close> in the store \<open>h\<close>.
  \<open>box_at\<close> reads the object a call returned, in the store the call left.
\<close>

definition isect :: "rectangle \<Rightarrow> box \<Rightarrow> rectangle" where
  "isect r b = \<lparr>x1 = max (x1 r) (left b), y1 = max (y1 r) (top_edge b),
                 x2 = min (x2 r) (right b), y2 = min (y2 r) (bottom b)\<rparr>"

definition inverted :: "rectangle \<Rightarrow> bool" where
  "inverted r = (x1 r > x2 r \<or> y1 r > y2 r)"

definition running :: "heap \<Rightarrow> ref \<Rightarrow> ref list \<Rightarrow> rectangle" where
  "running h b rectangles = foldl isect (rect (h ! b)) (map (\<lambda>p. h ! p) rectangles)"

definition box_at :: "ref \<times> heap \<Rightarrow> box" where
  "box_at res = snd res ! fst res"

subsection \<open>\<^verbatim>\<open>Box.copy\<close>, \<^verbatim>\<open>Box.extend\<close>\<close>

text \<open>\<^verbatim>\<open>copy\<close> makes a new box from the four attributes of \<^verbatim>\<open>o\<close> that \<^verbatim>\<open>__init__\<close> takes.\<close>

definition copy :: "heap \<Rightarrow> ref \<Rightarrow> ref \<times> heap" where
  "copy h ob =
     alloc h (Box_init (rect (h ! ob)) (btext (h ! ob)) (barycenter (h ! ob))
                (barycenter_y (h ! ob)))"

text \<open>
  \<^verbatim>\<open>extend\<close> runs two assignments on \<^verbatim>\<open>self\<close>. \<^verbatim>\<open>self.text += next.text\<close> raises
  \<^verbatim>\<open>TypeError\<close> when either text is \<^verbatim>\<open>None\<close>, before anything is written.
  \<^verbatim>\<open>next.right\<close> is read after the text has been stored, from the store as it is then.
  The method returns nothing: the result is the new store.
\<close>

definition extend :: "heap \<Rightarrow> ref \<Rightarrow> ref \<Rightarrow> error + heap" where
  "extend h self next =
     (case btext (h ! self) of
        None \<Rightarrow> Inl TypeError
      | Some s \<Rightarrow>
          (case btext (h ! next) of
             None \<Rightarrow> Inl TypeError
           | Some t \<Rightarrow>
               (let h1 = h[self := (h ! self)\<lparr>btext := Some (s @ t)\<rparr>];
                    h2 = h1[self := (h1 ! self)\<lparr>rect := (rect (h1 ! self))\<lparr>x2 := right (h1 ! next)\<rparr>\<rparr>]
                in Inr h2)))"

subsection \<open>\<^verbatim>\<open>Box.is_connected_to\<close>\<close>

text \<open>
  A text is the sequence of its characters, each a number: the code points of a
  \<^verbatim>\<open>unicode\<close> text, the bytes of a \<^verbatim>\<open>str\<close>. The character \<^verbatim>\<open>(\<close> is 40 in both.

  Two things \<^verbatim>\<open>is_connected_to\<close> uses belong to Python and not to the source: the table
  of white space that \<^verbatim>\<open>strip()\<close> removes, which depends on the text type, and the
  subtraction of the coordinates' number type, which rounds on floats. Both are
  parameters here. \<open>isspace c\<close> says whether \<^verbatim>\<open>strip()\<close> removes the character \<open>c\<close>;
  \<open>sub l r\<close> is the value of \<^verbatim>\<open>l - r\<close>, \<open>None\<close> when it is NaN. Every property below
  holds for all of them.
\<close>

definition strip :: "(nat \<Rightarrow> bool) \<Rightarrow> pystr \<Rightarrow> pystr" where
  "strip isspace s = rev (dropWhile isspace (rev (dropWhile isspace s)))"

definition endswith :: "pystr \<Rightarrow> pystr \<Rightarrow> bool" where
  "endswith s suffix =
     (length suffix \<le> length s \<and> drop (length s - length suffix) s = suffix)"

text \<open>\<^verbatim>\<open>abs\<close> of a number that is not NaN; it is exact on floats.\<close>

fun py_abs :: "coord \<Rightarrow> coord" where
  "py_abs (Fin a) = Fin \<bar>a\<bar>"
| "py_abs _ = PInf"

text \<open>
  The nested function \<^verbatim>\<open>equal(left, right)\<close>; it reads \<^verbatim>\<open>self.text\<close>. Any comparison
  with NaN is false.
\<close>

definition equal ::
  "(coord \<Rightarrow> coord \<Rightarrow> coord option) \<Rightarrow> pystr \<Rightarrow> coord \<Rightarrow> coord \<Rightarrow> bool" where
  "equal sub self_text l r =
     (let TOLERANCE = (if endswith self_text [40] then 10 else 1 / 2)
      in case sub l r of None \<Rightarrow> False | Some d \<Rightarrow> py_abs d < Fin TOLERANCE)"

text \<open>
  \<^verbatim>\<open>self.text.strip()\<close> raises \<^verbatim>\<open>AttributeError\<close> on a text that is \<^verbatim>\<open>None\<close>. The
  \<^verbatim>\<open>or\<close> of the first test does not look at \<^verbatim>\<open>next.text\<close> when \<^verbatim>\<open>self.text\<close> is
  blank.
\<close>

definition is_connected_to ::
  "(nat \<Rightarrow> bool) \<Rightarrow> (coord \<Rightarrow> coord \<Rightarrow> coord option) \<Rightarrow> box \<Rightarrow> box \<Rightarrow> error + bool" where
  "is_connected_to isspace sub self next =
     (case btext self of
        None \<Rightarrow> Inl AttributeError
      | Some s \<Rightarrow>
          if strip isspace s = [] then Inr False
          else (case btext next of
                  None \<Rightarrow> Inl AttributeError
                | Some t \<Rightarrow>
                    if strip isspace t = [] then Inr False
                    else (let shared_barycenter = (barycenter_y self = barycenter_y next);
                              shared_boundary = equal sub s (right self) (left next)
                          in Inr (shared_barycenter \<and> shared_boundary))))"

subsection \<open>\<^verbatim>\<open>BoxList\<close>\<close>

text \<open>
  A \<^verbatim>\<open>BoxList\<close> is a Python list of boxes: a list of references into the store. The
  argument \<^verbatim>\<open>rect\<close> of \<^verbatim>\<open>inside\<close> is an object with \<^verbatim>\<open>left\<close>, \<^verbatim>\<open>top\<close>, \<^verbatim>\<open>right\<close> and
  \<^verbatim>\<open>bottom\<close>, a box again. Each method builds its result from a generator over
  \<^verbatim>\<open>self\<close>, in list order.
\<close>

definition is_in_rect :: "box \<Rightarrow> box \<Rightarrow> bool" where
  "is_in_rect rct b =
     ((left rct \<le> left b \<and> left b \<le> right b \<and> right b \<le> right rct) \<and>
      (top_edge rct \<le> top_edge b \<and> top_edge b \<le> bottom b \<and> bottom b \<le> bottom rct))"

fun inside :: "heap \<Rightarrow> ref list \<Rightarrow> ref \<Rightarrow> ref list" where
  "inside h [] rct = []"
| "inside h (b # bl) rct =
     (if is_in_rect (h ! rct) (h ! b) then b # inside h bl rct else inside h bl rct)"

text \<open>\<^verbatim>\<open>min\<close> and \<^verbatim>\<open>max\<close> of a generator: \<^verbatim>\<open>ValueError\<close> when it yields nothing.\<close>

fun py_min :: "coord list \<Rightarrow> error + coord" where
  "py_min [] = Inl ValueError"
| "py_min (c # cs) = Inr (fold (\<lambda>d m. if d < m then d else m) cs c)"

fun py_max :: "coord list \<Rightarrow> error + coord" where
  "py_max [] = Inl ValueError"
| "py_max (c # cs) = Inr (fold (\<lambda>d m. if d > m then d else m) cs c)"

definition bounds :: "heap \<Rightarrow> ref list \<Rightarrow> error + (ref \<times> heap)" where
  "bounds h bl =
     (case py_min (map (\<lambda>b. left (h ! b)) bl) of Inl e \<Rightarrow> Inl e | Inr a1 \<Rightarrow>
      case py_min (map (\<lambda>b. top_edge (h ! b)) bl) of Inl e \<Rightarrow> Inl e | Inr b1 \<Rightarrow>
      case py_max (map (\<lambda>b. right (h ! b)) bl) of Inl e \<Rightarrow> Inl e | Inr a2 \<Rightarrow>
      case py_max (map (\<lambda>b. bottom (h ! b)) bl) of Inl e \<Rightarrow> Inl e | Inr b2 \<Rightarrow>
        Inr (alloc h (Box_init \<lparr>x1 = a1, y1 = b1, x2 = a2, y2 = b2\<rparr> None None None)))"

text \<open>
  The test of \<^verbatim>\<open>purge_empty_text\<close> on one box:
  \<^verbatim>\<open>box.text.strip() or box.classname != 'LTTextLineHorizontal'\<close>. A text that is
  \<^verbatim>\<open>None\<close> raises; \<^verbatim>\<open>classname\<close> is read only when the stripped text is empty, and
  raises when the box has no such attribute. \<open>isspace\<close> is the white space of the text
  type, as above.
\<close>

definition keeps_text :: "(nat \<Rightarrow> bool) \<Rightarrow> box \<Rightarrow> error + bool" where
  "keeps_text isspace b =
     (case btext b of
        None \<Rightarrow> Inl AttributeError
      | Some s \<Rightarrow>
          if strip isspace s \<noteq> [] then Inr True
          else (case classname b of
                  None \<Rightarrow> Inl AttributeError
                | Some c \<Rightarrow> Inr (c \<noteq> ascii ''LTTextLineHorizontal'')))"

fun purge_empty_text :: "(nat \<Rightarrow> bool) \<Rightarrow> heap \<Rightarrow> ref list \<Rightarrow> error + ref list" where
  "purge_empty_text isspace h [] = Inr []"
| "purge_empty_text isspace h (b # bl) =
     (case keeps_text isspace (h ! b) of
        Inl e \<Rightarrow> Inl e
      | Inr k \<Rightarrow>
          (case purge_empty_text isspace h bl of
             Inl e \<Rightarrow> Inl e
           | Inr rest \<Rightarrow> Inr (if k then b # rest else rest)))"

subsection \<open>A call of \<^verbatim>\<open>clip\<close> with arguments of either class\<close>

text \<open>
  \<^verbatim>\<open>clip\<close> takes any objects. Of the two classes of the module a \<^verbatim>\<open>Box\<close> has the
  properties \<^verbatim>\<open>left\<close>, \<^verbatim>\<open>top\<close>, \<^verbatim>\<open>right\<close> and \<^verbatim>\<open>bottom\<close>; a \<^verbatim>\<open>Rectangle\<close> is a
  namedtuple with the fields \<^verbatim>\<open>x1\<close>, \<^verbatim>\<open>y1\<close>, \<^verbatim>\<open>x2\<close>, \<^verbatim>\<open>y2\<close> and a \<^verbatim>\<open>__repr__\<close>, so
  \<^verbatim>\<open>rectangle.left\<close>, the first thing the loop reads, raises \<^verbatim>\<open>AttributeError\<close> on it.
  \<open>clip_args\<close> is \<^verbatim>\<open>clip\<close> on such arguments: the loop is the loop above, reached
  argument by argument, and on boxes alone it is \<open>clip\<close>.
\<close>

datatype argument = A_Rectangle rectangle | A_Box ref

fun clip_loop_args :: "heap \<Rightarrow> rectangle \<Rightarrow> argument list \<Rightarrow> error + rectangle option" where
  "clip_loop_args h r [] = Inr (Some r)"
| "clip_loop_args h r (A_Rectangle t # rectangles) = Inl AttributeError"
| "clip_loop_args h r (A_Box p # rectangles) =
     (let r' = \<lparr>x1 = max (x1 r) (left (h ! p)), y1 = max (y1 r) (top_edge (h ! p)),
                x2 = min (x2 r) (right (h ! p)), y2 = min (y2 r) (bottom (h ! p))\<rparr>
      in if x1 r' > x2 r' \<or> y1 r' > y2 r' then Inr None else clip_loop_args h r' rectangles)"

definition clip_args :: "heap \<Rightarrow> ref \<Rightarrow> argument list \<Rightarrow> error + (ref \<times> heap)" where
  "clip_args h self rectangles =
     (case clip_loop_args h (rect (h ! self)) rectangles of
        Inl e \<Rightarrow> Inl e
      | Inr None \<Rightarrow> Inr (empty_box, h)
      | Inr (Some r) \<Rightarrow> Inr (alloc h (Box_init r None None None)))"

subsection \<open>\<^verbatim>\<open>Histogram\<close>\<close>

text \<open>
  \<^verbatim>\<open>Histogram\<close> is a subclass of \<^verbatim>\<open>Counter\<close> with one method, \<^verbatim>\<open>rounder\<close>.
  \<^verbatim>\<open>Counter\<close> comes from the package \<^verbatim>\<open>counter\<close>, the \<^verbatim>\<open>collections.Counter\<close> of
  Python: a dict from keys to integer counts. Its code is not in the source; what
  \<^verbatim>\<open>rounder\<close> uses of it is written here as the library has it:
  \<^item> \<^verbatim>\<open>c[k]\<close> is the count stored for \<^verbatim>\<open>k\<close>, and 0 for a key that is not there;
  \<^item> \<^verbatim>\<open>c + d\<close> starts from \<^verbatim>\<open>result = Counter()\<close>, whatever the classes of \<^verbatim>\<open>c\<close> and
    \<^verbatim>\<open>d\<close>, and stores the sum of the two counts for every key of \<^verbatim>\<open>c\<close>, then the count
    of \<^verbatim>\<open>d\<close> for every key that \<^verbatim>\<open>c\<close> lacks, in both cases only when it is positive.
  An object is its class and its items in iteration order, the keys distinct (the record
  \<open>counter\<close> above).
\<close>

definition getitem :: "'k counter \<Rightarrow> 'k \<Rightarrow> int" where
  "getitem c k = (case map_of (entries c) k of None \<Rightarrow> 0 | Some n \<Rightarrow> n)"

definition counter_add :: "'k counter \<Rightarrow> 'k counter \<Rightarrow> 'k counter" where
  "counter_add c d =
     \<lparr>klass = Counter,
      entries =
        filter (\<lambda>(k, n). n > 0) (map (\<lambda>(k, n). (k, n + getitem d k)) (entries c))
        @ filter (\<lambda>(k, n). map_of (entries c) k = None \<and> n > 0) (entries d)\<rparr>"

text \<open>
  \<^verbatim>\<open>_rounder(val, tol)\<close> is \<^verbatim>\<open>round((1.0 * val) / tol) * tol\<close>, on floats. The
  arithmetic of the keys is a parameter: the numbers 1.0 and 0, the product, the
  quotient and \<^verbatim>\<open>round\<close> (the record \<open>arith\<close> above). Dividing by a \<^verbatim>\<open>tol\<close> that
  equals 0 raises \<^verbatim>\<open>ZeroDivisionError\<close>.
\<close>

definition private_rounder :: "'k arith \<Rightarrow> 'k \<Rightarrow> 'k \<Rightarrow> error + 'k" where
  "private_rounder ar val tol =
     (if tol = a_zero ar then Inl ZeroDivisionError
      else Inr (a_mul ar (a_round ar (a_div ar (a_mul ar (a_one ar) val) tol)) tol))"

text \<open>
  \<^verbatim>\<open>rounder\<close>: \<^verbatim>\<open>c\<close> starts as an empty \<^verbatim>\<open>Histogram\<close>, and for every key \<^verbatim>\<open>item\<close> of
  \<^verbatim>\<open>self\<close> becomes \<^verbatim>\<open>c + Histogram({_rounder(item, tol): self[item]})\<close>.
\<close>

fun rounder_loop ::
  "'k arith \<Rightarrow> 'k counter \<Rightarrow> 'k \<Rightarrow> 'k counter \<Rightarrow> 'k list \<Rightarrow> error + 'k counter" where
  "rounder_loop ar self tol c [] = Inr c"
| "rounder_loop ar self tol c (item # items) =
     (case private_rounder ar item tol of
        Inl e \<Rightarrow> Inl e
      | Inr k \<Rightarrow>
          rounder_loop ar self tol
            (counter_add c \<lparr>klass = Histogram, entries = [(k, getitem self item)]\<rparr>) items)"

definition rounder :: "'k arith \<Rightarrow> 'k counter \<Rightarrow> 'k \<Rightarrow> error + 'k counter" where
  "rounder ar self tol =
     rounder_loop ar self tol \<lparr>klass = Histogram, entries = []\<rparr> (map fst (entries self))"

text \<open>
  The call \<^verbatim>\<open>obj.rounder(tol)\<close>: the method is found on a \<^verbatim>\<open>Histogram\<close>; a plain
  \<^verbatim>\<open>Counter\<close> has no attribute \<^verbatim>\<open>rounder\<close>.
\<close>

definition call_rounder :: "'k arith \<Rightarrow> 'k counter \<Rightarrow> 'k \<Rightarrow> error + 'k counter" where
  "call_rounder ar obj tol =
     (case klass obj of
        Histogram \<Rightarrow> rounder ar obj tol
      | Counter \<Rightarrow> Inl AttributeError)"

subsection \<open>Examples of the parameters, and a page to compute on\<close>

text \<open>
  The white space of the \<^verbatim>\<open>str\<close> of Python 3 (Python 2's \<^verbatim>\<open>unicode\<close> has U+180E in
  addition; a byte string has 9 to 13 and 32 only).
\<close>

definition unicode_space :: "nat \<Rightarrow> bool" where
  "unicode_space c =
     ((9 \<le> c \<and> c \<le> 13) \<or> (28 \<le> c \<and> c \<le> 32) \<or> c = 133 \<or> c = 160 \<or> c = 5760
      \<or> (8192 \<le> c \<and> c \<le> 8202) \<or> c = 8232 \<or> c = 8233 \<or> c = 8239 \<or> c = 8287
      \<or> c = 12288)"

text \<open>
  Arithmetic without rounding: the \<^verbatim>\<open>-\<close>, \<^verbatim>\<open>*\<close> and \<^verbatim>\<open>/\<close> of Python's \<^verbatim>\<open>int\<close> and
  \<^verbatim>\<open>Fraction\<close>, and of floats wherever the exact result is a float again, as it is in
  the examples that use binary fractions. \<^verbatim>\<open>round\<close> is Python 2's, halves away from
  zero.
\<close>

fun exact_sub :: "coord \<Rightarrow> coord \<Rightarrow> coord option" where
  "exact_sub (Fin a) (Fin b) = Some (Fin (a - b))"
| "exact_sub PInf PInf = None"
| "exact_sub MInf MInf = None"
| "exact_sub PInf _ = Some PInf"
| "exact_sub _ MInf = Some PInf"
| "exact_sub MInf _ = Some MInf"
| "exact_sub _ PInf = Some MInf"

definition exact_arith :: "rat arith" where
  "exact_arith =
     \<lparr>a_one = 1, a_zero = 0, a_mul = (\<lambda>a b. a * b), a_div = (\<lambda>a b. a / b),
      a_round = (\<lambda>a. if 0 \<le> a then of_int \<lfloor>a + 1 / 2\<rfloor> else of_int \<lceil>a - 1 / 2\<rceil>)\<rparr>"

text \<open>
  A small store: the sentinel, then six boxes.
  \<open>Rect a b c d\<close> is \<^verbatim>\<open>Rectangle(x1=a, y1=b, x2=c, y2=d)\<close> with finite coordinates.
\<close>

definition Rect :: "rat \<Rightarrow> rat \<Rightarrow> rat \<Rightarrow> rat \<Rightarrow> rectangle" where
  "Rect a b c d = \<lparr>x1 = Fin a, y1 = Fin b, x2 = Fin c, y2 = Fin d\<rparr>"

definition page :: heap where
  "page =
     module_heap @
     [Box_init (Rect 0 0 2 2) (Some (ascii ''foo('')) None (Some 1),
      Box_init (Rect 1 1 5 5) (Some (ascii ''bar'')) None (Some 1),
      Box_init (Rect 6 6 7 7) None None None,
      (Box_init (Rect (-1) 0 1 1) (Some (ascii '' '')) None None)
        \<lparr>classname := Some (ascii ''LTTextLineHorizontal'')\<rparr>,
      (Box_init (Rect 0 0 10 10) (Some []) None None)\<lparr>classname := Some (ascii ''LTRect'')\<rparr>,
      (Box_init (Rect 2 0 3 1) (Some (ascii ''x'')) None (Some 1))
        \<lparr>classname := Some (ascii ''LTTextLineHorizontal'')\<rparr>]"

section \<open>Properties\<close>

subsection \<open>The order of coordinates\<close>

lemma PInf_le [simp]: "PInf \<le> c \<longleftrightarrow> c = PInf"
  by (cases c) simp_all

lemma le_MInf [simp]: "c \<le> MInf \<longleftrightarrow> c = MInf"
  by (cases c) simp_all

lemma le_PInf [simp]: "c \<le> PInf"
  by (cases c) simp_all

lemma MInf_le [simp]: "MInf \<le> c"
  by simp

lemma coord_less_simps [simp]:
  "MInf < PInf" "MInf < Fin a" "Fin a < PInf" "Fin a < Fin b \<longleftrightarrow> a < b"
  "\<not> c < MInf" "\<not> PInf < c"
  by (auto simp: less_coord_def)

subsection \<open>The loop of \<^verbatim>\<open>clip\<close>\<close>

text \<open>
  Once the running rectangle is inverted it stays inverted, so the loop leaves early
  exactly when the intersection with all the arguments is inverted.
\<close>

lemma clip_loop_Cons:
  "clip_loop r (b # bs) = (if inverted (isect r b) then None else clip_loop (isect r b) bs)"
  by (simp add: isect_def inverted_def Let_def)

lemma inverted_isect: "inverted r \<Longrightarrow> inverted (isect r b)"
  by (auto simp: inverted_def isect_def min_less_iff_disj less_max_iff_disj)

lemma inverted_foldl: "inverted r \<Longrightarrow> inverted (foldl isect r bs)"
  by (induction bs arbitrary: r) (simp_all add: inverted_isect)

lemma clip_loop_foldl:
  "bs \<noteq> [] \<Longrightarrow>
   clip_loop r bs = (if inverted (foldl isect r bs) then None else Some (foldl isect r bs))"
proof (induction bs arbitrary: r)
  case Nil
  then show ?case by simp
next
  case (Cons b bs)
  show ?case
  proof (cases "bs = []")
    case True
    then show ?thesis by (simp add: clip_loop_Cons del: clip_loop.simps(2))
  next
    case False
    with Cons.IH [of "isect r b"] show ?thesis
      by (simp add: clip_loop_Cons inverted_foldl del: clip_loop.simps(2))
  qed
qed

lemma inverted_take:
  "inverted (foldl isect r (take k bs)) \<Longrightarrow> inverted (foldl isect r bs)"
proof -
  assume a: "inverted (foldl isect r (take k bs))"
  have "foldl isect r bs = foldl isect (foldl isect r (take k bs)) (drop k bs)"
    by (metis append_take_drop_id foldl_append)
  with a show ?thesis by (simp add: inverted_foldl)
qed

lemma isect_empty: "isect empty_rect b = empty_rect"
  by (simp add: isect_def empty_rect_def max_def min_def)

lemma foldl_isect_empty: "foldl isect empty_rect bs = empty_rect"
  by (induction bs) (simp_all add: isect_empty)

lemma inverted_empty: "inverted empty_rect"
  by (simp add: inverted_def empty_rect_def)

lemma isect_commute: "isect (isect r a) b = isect (isect r b) a"
  by (simp add: isect_def max.left_commute min.left_commute max.commute min.commute max.assoc min.assoc)

lemma clip_nonempty:
  "rs \<noteq> [] \<Longrightarrow>
   clip h b rs =
     (if inverted (running h b rs) then (empty_box, h)
      else (length h, h @ [Box_init (running h b rs) None None None]))"
  by (simp add: clip_def running_def clip_loop_foldl alloc_def)

lemma running_take:
  "inverted (running h b (take k rs)) \<Longrightarrow> inverted (running h b rs)"
  unfolding running_def by (metis inverted_take take_map)

lemma running_empty_box: "wf_heap h \<Longrightarrow> running h empty_box rs = empty_rect"
  by (simp add: running_def wf_heap_def Box_init_def foldl_isect_empty)

lemma box_at_clip:
  "wf_heap h \<Longrightarrow> rs \<noteq> [] \<Longrightarrow>
   box_at (clip h b rs) =
     (if inverted (running h b rs) then Box_init empty_rect None None None
      else Box_init (running h b rs) None None None)"
  by (simp add: clip_nonempty box_at_def wf_heap_def)

lemma fst_clip:
  "wf_heap h \<Longrightarrow> rs \<noteq> [] \<Longrightarrow>
   (fst (clip h b rs) = empty_box) = inverted (running h b rs)"
  by (auto simp: clip_nonempty wf_heap_def empty_box_def)

lemma running_two: "running h b [r, s] = isect (isect (rect (h ! b)) (h ! r)) (h ! s)"
  by (simp add: running_def)

subsection \<open>Computing on the example page\<close>

lemmas page_eval =
  page_def module_heap_def alloc_def Box_init_def Rect_def empty_rect_def empty_box_def
  left_def top_edge_def right_def bottom_def ascii_def

lemma wf_page: "wf_heap page"
  by (simp add: wf_heap_def page_eval)

lemma max_min_Fin [simp]:
  "max (Fin a) (Fin b) = Fin (max a b)" "min (Fin a) (Fin b) = Fin (min a b)"
  by (simp_all add: max_def min_def)

lemma edges_Box_init [simp]:
  "left (Box_init r t c d) = x1 r" "top_edge (Box_init r t c d) = y1 r"
  "right (Box_init r t c d) = x2 r" "bottom (Box_init r t c d) = y2 r"
  "rect (Box_init r t c d) = r" "btext (Box_init r t c d) = t"
  "barycenter (Box_init r t c d) = c" "barycenter_y (Box_init r t c d) = d"
  "classname (Box_init r t c d) = None"
  by (simp_all add: left_def top_edge_def right_def bottom_def Box_init_def)

lemma Rect_sel [simp]:
  "x1 (Rect a b c d) = Fin a" "y1 (Rect a b c d) = Fin b"
  "x2 (Rect a b c d) = Fin c" "y2 (Rect a b c d) = Fin d"
  by (simp_all add: Rect_def)

lemma isect_same: "rect b = r \<Longrightarrow> isect r b = r"
  by (auto simp: isect_def left_def top_edge_def right_def bottom_def)

lemma Box_init_inject [simp]:
  "(Box_init r t c d = Box_init r' t' c' d') = (r = r' \<and> t = t' \<and> c = c' \<and> d = d')"
  by (auto simp: Box_init_def)

subsection \<open>Blank texts and the tolerance\<close>

lemma strip_empty_iff: "strip isspace s = [] \<longleftrightarrow> (\<forall>c\<in>set s. isspace c)"
proof -
  have "(\<forall>c\<in>set (dropWhile isspace s). isspace c) \<longleftrightarrow> dropWhile isspace s = []"
  proof
    assume a: "\<forall>c\<in>set (dropWhile isspace s). isspace c"
    show "dropWhile isspace s = []"
    proof (rule ccontr)
      assume n: "dropWhile isspace s \<noteq> []"
      then have "\<not> isspace (hd (dropWhile isspace s))"
        by (rule hd_dropWhile)
      with a n show False
        by simp
    qed
  next
    assume "dropWhile isspace s = []"
    then show "\<forall>c\<in>set (dropWhile isspace s). isspace c"
      by (simp only: set_simps ball_empty)
  qed
  also have "dropWhile isspace s = [] \<longleftrightarrow> (\<forall>c\<in>set s. isspace c)"
    by (rule dropWhile_eq_Nil_conv)
  finally show ?thesis
    by (simp add: strip_def dropWhile_eq_Nil_conv)
qed

lemma endswith_paren: "endswith s [40] \<longleftrightarrow> s \<noteq> [] \<and> last s = 40"
proof (cases s rule: rev_cases)
  case Nil
  then show ?thesis by (simp add: endswith_def)
next
  case (snoc ys y)
  then show ?thesis by (auto simp: endswith_def)
qed

lemma equal_sub:
  "equal sub s l r =
     (case sub l r of
        Some (Fin d) \<Rightarrow> \<bar>d\<bar> < (if s \<noteq> [] \<and> last s = 40 then 10 else 1 / 2)
      | _ \<Rightarrow> False)"
  by (simp add: equal_def endswith_paren split: option.splits coord.splits)

subsection \<open>Lists of boxes\<close>

lemma py_min_Min: "cs \<noteq> [] \<Longrightarrow> py_min cs = Inr (Min (set cs))"
proof (cases cs)
  case Nil
  then show "cs \<noteq> [] \<Longrightarrow> ?thesis" by simp
next
  case (Cons c ds)
  have "(\<lambda>d m :: coord. if d < m then d else m) = min"
    by (intro ext) (auto simp: min_def)
  with Cons show ?thesis
    by (simp add: Min.set_eq_fold [symmetric])
qed

lemma py_max_Max: "cs \<noteq> [] \<Longrightarrow> py_max cs = Inr (Max (set cs))"
proof (cases cs)
  case Nil
  then show "cs \<noteq> [] \<Longrightarrow> ?thesis" by simp
next
  case (Cons c ds)
  have "(\<lambda>d m :: coord. if m < d then d else m) = max"
    by (intro ext) (auto simp: max_def)
  with Cons show ?thesis
    by (simp add: Max.set_eq_fold [symmetric])
qed

lemma inside_filter: "inside h bl rct = filter (\<lambda>b. is_in_rect (h ! rct) (h ! b)) bl"
  by (induction bl) simp_all

lemma keeps_text_spec:
  "btext b = Some s \<Longrightarrow> classname b = Some c \<Longrightarrow>
   keeps_text isspace b =
     Inr ((\<exists>x\<in>set s. \<not> isspace x) \<or> c \<noteq> ascii ''LTTextLineHorizontal'')"
  by (auto simp: keeps_text_def strip_empty_iff)

subsection \<open>The two assignments of \<^verbatim>\<open>extend\<close>\<close>

lemma extend_Some:
  "btext (h ! self) = Some s \<Longrightarrow> btext (h ! next) = Some t \<Longrightarrow> self < length h \<Longrightarrow>
   extend h self next =
     Inr (h[self := (h ! self)\<lparr>btext := Some (s @ t),
                               rect := (rect (h ! self))\<lparr>x2 := right (h ! next)\<rparr>\<rparr>])"
  by (cases "next = self") (simp_all add: extend_def Let_def right_def)

lemma extend_None:
  "btext (h ! self) = None \<or> btext (h ! next) = None \<Longrightarrow> extend h self next = Inl TypeError"
  by (auto simp: extend_def split: option.splits)

subsection \<open>\<^verbatim>\<open>clip\<close> on arguments of either class\<close>

lemma clip_loop_args_boxes:
  "clip_loop_args h r (map A_Box rs) = Inr (clip_loop r (map (\<lambda>p. h ! p) rs))"
  by (induction rs arbitrary: r) (simp_all add: Let_def)

lemma clip_args_boxes: "clip_args h self (map A_Box rs) = Inr (clip h self rs)"
  by (simp add: clip_args_def clip_def clip_loop_args_boxes split: option.splits)

subsection \<open>The class of what \<^verbatim>\<open>rounder\<close> returns\<close>

lemma klass_counter_add [simp]: "klass (counter_add c d) = Counter"
  by (simp add: counter_add_def)

lemma rounder_loop_class:
  "tol \<noteq> a_zero ar \<Longrightarrow>
   \<exists>c'. rounder_loop ar self tol c items = Inr c'
        \<and> (items \<noteq> [] \<longrightarrow> klass c' = Counter) \<and> (items = [] \<longrightarrow> c' = c)"
proof (induction items arbitrary: c)
  case Nil
  then show ?case by simp
next
  case (Cons item items)
  let ?c1 = "counter_add c
      \<lparr>klass = Histogram,
       entries = [(a_mul ar (a_round ar (a_div ar (a_mul ar (a_one ar) item) tol)) tol,
                   getitem self item)]\<rparr>"
  from Cons.IH [OF Cons.prems, of ?c1] obtain c' where
    c': "rounder_loop ar self tol ?c1 items = Inr c'"
      "items \<noteq> [] \<longrightarrow> klass c' = Counter" "items = [] \<longrightarrow> c' = ?c1"
    by blast
  then have "klass c' = Counter"
    by (cases "items = []") simp_all
  with c'(1) Cons.prems show ?case
    by (simp add: private_rounder_def)
qed

subsection \<open>The sentinel stays as the module made it\<close>

text \<open>
  No method writes to the sentinel: \<^verbatim>\<open>clip\<close>, \<^verbatim>\<open>copy\<close> and \<^verbatim>\<open>bounds\<close> only add
  objects, and \<^verbatim>\<open>extend\<close> on the sentinel raises, its text being \<^verbatim>\<open>None\<close>.
\<close>

lemma wf_module_heap: "wf_heap module_heap"
  by (simp add: wf_heap_def page_eval)

lemma wf_heap_alloc: "wf_heap h \<Longrightarrow> wf_heap (snd (alloc h obj))"
  by (simp add: wf_heap_def alloc_def nth_append empty_box_def)

lemma wf_heap_clip: "wf_heap h \<Longrightarrow> wf_heap (snd (clip h b rectangles))"
  by (simp add: clip_def wf_heap_alloc split: option.splits)

lemma wf_heap_copy: "wf_heap h \<Longrightarrow> wf_heap (snd (copy h ob))"
  by (simp add: copy_def wf_heap_alloc)

lemma wf_heap_bounds: "wf_heap h \<Longrightarrow> bounds h bl = Inr res \<Longrightarrow> wf_heap (snd res)"
  by (auto simp: bounds_def wf_heap_alloc split: sum.splits)

lemma wf_heap_extend: "wf_heap h \<Longrightarrow> extend h self next = Inr h' \<Longrightarrow> wf_heap h'"
  by (cases "self = empty_box")
     (auto simp: extend_def wf_heap_def Let_def split: option.splits)

subsection \<open>The sentinel is the normal form of an empty intersection\<close>

text \<open>
  C1. In a store that holds the sentinel as the module made it, and for a non-empty
  sequence of rectangles: when the running intersection of \<^verbatim>\<open>b.clip(...)\<close> is inverted
  after some step \<open>k\<close>, the call returns the reference \<^verbatim>\<open>Box.empty_box\<close> itself and
  makes no object; a result whose rectangle is inverted is always that reference, never
  another inverted rectangle; the sentinel's rectangle is
  \<open>(+\<infinity>, +\<infinity>, -\<infinity>, -\<infinity>)\<close>; and clipping the sentinel yields the sentinel.
\<close>

theorem clip_empty_box_normal_form:
  assumes "wf_heap h" and "rectangles \<noteq> []"
  shows "(\<forall>k. 1 \<le> k \<and> k \<le> length rectangles \<and> inverted (running h b (take k rectangles))
            \<longrightarrow> clip h b rectangles = (empty_box, h))
       \<and> (inverted (rect (box_at (clip h b rectangles))) \<longrightarrow> clip h b rectangles = (empty_box, h))
       \<and> h ! empty_box = Box_init empty_rect None None None
       \<and> empty_rect = \<lparr>x1 = PInf, y1 = PInf, x2 = MInf, y2 = MInf\<rparr>
       \<and> clip h empty_box rectangles = (empty_box, h)"
proof -
  have a: "clip h b rectangles = (empty_box, h)"
    if "inverted (running h b (take k rectangles))" for k
    using that assms(2) running_take [of h b k rectangles] by (simp add: clip_nonempty)
  have b: "clip h b rectangles = (empty_box, h)"
    if "inverted (rect (box_at (clip h b rectangles)))"
    using that assms by (simp add: clip_nonempty box_at_def Box_init_def split: if_splits)
  have c: "clip h empty_box rectangles = (empty_box, h)"
    using assms by (simp add: clip_nonempty running_empty_box inverted_empty)
  have d: "h ! empty_box = Box_init empty_rect None None None"
    using assms(1) by (simp add: wf_heap_def)
  from a b c d show ?thesis
    by (auto simp: empty_rect_def)
qed

theorem clip_empty_box_normal_form_witness:
  "wf_heap page \<and> [3] \<noteq> ([] :: ref list)
   \<and> 1 \<le> (1 :: nat) \<and> 1 \<le> length [3 :: ref] \<and> inverted (running page 1 (take 1 [3]))
   \<and> clip page 1 [3] = (empty_box, page)
   \<and> clip page empty_box [3] = (empty_box, page)"
proof -
  have inv: "inverted (running page 1 (take 1 [3]))"
    by (simp add: running_def isect_def inverted_def page_eval)
  have ne: "[3] \<noteq> ([] :: ref list)"
    by simp
  note T = clip_empty_box_normal_form [OF wf_page ne, of 1]
  from T inv have "clip page 1 [3] = (empty_box, page)"
    by (auto simp del: take_Suc_Cons)
  moreover from T have "clip page empty_box [3] = (empty_box, page)"
    by simp
  ultimately show ?thesis
    using inv wf_page by simp
qed

subsection \<open>Clipping does not depend on the order of its arguments\<close>

text \<open>
  C3. For a box \<open>b\<close> and rectangles \<open>r1\<close>, \<open>r2\<close> of the store, \<^verbatim>\<open>b.clip(r1, r2)\<close>,
  \<^verbatim>\<open>b.clip(r1).clip(r2)\<close> and \<^verbatim>\<open>b.clip(r2, r1)\<close> return boxes with the same
  attributes, and each of the three is the sentinel exactly when the others are. (A
  \<^verbatim>\<open>Box\<close> defines no \<^verbatim>\<open>__eq__\<close>; two results that are not the sentinel are
  distinct objects, equal in every attribute.)
\<close>

theorem clip_order_independent:
  assumes "wf_heap h" and "b < length h" and "r1 < length h" and "r2 < length h"
  shows "box_at (clip h b [r1, r2]) = box_at (clip (snd (clip h b [r1])) (fst (clip h b [r1])) [r2])
       \<and> box_at (clip h b [r1, r2]) = box_at (clip h b [r2, r1])
       \<and> (fst (clip h b [r1, r2]) = empty_box)
           = (fst (clip (snd (clip h b [r1])) (fst (clip h b [r1])) [r2]) = empty_box)
       \<and> (fst (clip h b [r1, r2]) = empty_box) = (fst (clip h b [r2, r1]) = empty_box)"
proof -
  let ?A = "isect (rect (h ! b)) (h ! r1)"
  let ?h1 = "snd (clip h b [r1])" and ?p = "fst (clip h b [r1])"
  have swap: "running h b [r1, r2] = running h b [r2, r1]"
    by (simp add: running_two isect_commute)
  have wf1: "wf_heap ?h1"
    using assms(1) by (simp add: clip_nonempty wf_heap_def running_def nth_append empty_box_def)
  have chain: "running ?h1 ?p [r2] = (if inverted ?A then empty_rect else isect ?A (h ! r2))"
  proof (cases "inverted ?A")
    case True
    then have "clip h b [r1] = (empty_box, h)"
      by (simp add: clip_nonempty running_def)
    with True assms(1) show ?thesis
      by (simp add: running_empty_box)
  next
    case False
    then have "clip h b [r1] = (length h, h @ [Box_init ?A None None None])"
      by (simp add: clip_nonempty running_def)
    with False assms(4) show ?thesis
      by (simp add: running_def nth_append Box_init_def)
  qed
  have inv: "inverted (running ?h1 ?p [r2]) = inverted (running h b [r1, r2])"
    using inverted_isect [of ?A "h ! r2"]
    by (auto simp: chain running_two inverted_empty)
  have val: "box_at (clip ?h1 ?p [r2]) = box_at (clip h b [r1, r2])"
    using assms(1) wf1 inv inverted_isect [of ?A "h ! r2"]
    by (auto simp: box_at_clip chain running_two inverted_empty)
  from val inv swap assms(1) wf1 show ?thesis
    by (simp add: box_at_clip fst_clip)
qed


theorem clip_order_independent_witness:
  "wf_heap page \<and> 1 < length page \<and> 2 < length page \<and> 5 < length page
   \<and> box_at (clip page 1 [2, 5]) = Box_init (Rect 1 1 2 2) None None None
   \<and> box_at (clip (snd (clip page 1 [2])) (fst (clip page 1 [2])) [5])
       = Box_init (Rect 1 1 2 2) None None None
   \<and> box_at (clip page 1 [5, 2]) = Box_init (Rect 1 1 2 2) None None None"
proof -
  have v: "1 < length page" "2 < length page" "5 < length page"
    by (simp_all add: page_eval)
  have c: "box_at (clip page 1 [2, 5]) = Box_init (Rect 1 1 2 2) None None None"
    by (simp add: clip_def box_at_def page_eval)
  note T = clip_order_independent [OF wf_page v]
  note e1 = T [THEN conjunct1, symmetric]
  note e2 = T [THEN conjunct2, THEN conjunct1, symmetric]
  show ?thesis
    by (simp only: e1 e2 c v wf_page simp_thms)
qed

subsection \<open>Clipping a box against its own rectangle\<close>

text \<open>
  C4, amended. With the \<^verbatim>\<open>Rectangle\<close> \<open>r\<close> itself as the argument, \<^verbatim>\<open>Box(r).clip(r)\<close>
  raises \<^verbatim>\<open>AttributeError\<close>: the arguments of \<^verbatim>\<open>clip\<close> must be boxes. Clipped
  against a box \<open>q\<close> that carries the rectangle \<open>r\<close> (the box itself, or any other box
  with it), \<^verbatim>\<open>Box(r)\<close> gives a new box with the rectangle \<open>r\<close> and no other attribute
  when \<open>r\<close> is not inverted, and the sentinel \<^verbatim>\<open>Box.empty_box\<close> itself when \<open>r\<close> is
  inverted. So the result has the attributes of \<^verbatim>\<open>Box(r)\<close> exactly when \<open>r\<close> is not
  inverted or is the sentinel's rectangle.
\<close>

theorem clip_self:
  assumes "wf_heap h" and "q \<le> length h"
    and "rect (snd (alloc h (Box_init r None None None)) ! q) = r"
  shows "clip_args (snd (alloc h (Box_init r None None None)))
                   (fst (alloc h (Box_init r None None None))) [A_Box q]
           = (if inverted r then Inr (empty_box, h @ [Box_init r None None None])
              else Inr (Suc (length h),
                        h @ [Box_init r None None None, Box_init r None None None]))
       \<and> clip_args (snd (alloc h (Box_init r None None None)))
                   (fst (alloc h (Box_init r None None None))) [A_Box q]
           = Inr (clip (snd (alloc h (Box_init r None None None)))
                       (fst (alloc h (Box_init r None None None))) [q])
       \<and> (box_at (clip (snd (alloc h (Box_init r None None None)))
                       (fst (alloc h (Box_init r None None None))) [q])
            = Box_init r None None None)
         = (r = empty_rect \<or> \<not> inverted r)
       \<and> clip_args (snd (alloc h (Box_init r None None None)))
                   (fst (alloc h (Box_init r None None None))) [A_Rectangle r]
           = Inl AttributeError"
proof -
  let ?h1 = "h @ [Box_init r None None None]"
  have wf1: "wf_heap ?h1"
    using assms(1) by (simp add: wf_heap_def nth_append empty_box_def)
  have run: "running ?h1 (length h) [q] = r"
    using assms(3) by (simp add: running_def alloc_def isect_same)
  have boxes: "clip_args ?h1 (length h) [A_Box q] = Inr (clip ?h1 (length h) [q])"
    using clip_args_boxes [of ?h1 "length h" "[q]"] by simp
  have res: "clip ?h1 (length h) [q] =
      (if inverted r then (empty_box, ?h1)
       else (Suc (length h), h @ [Box_init r None None None, Box_init r None None None]))"
    using run by (simp add: clip_nonempty)
  have val: "(box_at (clip ?h1 (length h) [q]) = Box_init r None None None)
      = (r = empty_rect \<or> \<not> inverted r)"
    using wf1 run by (auto simp: box_at_clip)
  have rct: "clip_args ?h1 (length h) [A_Rectangle r] = Inl AttributeError"
    by (simp add: clip_args_def)
  from boxes res val rct show ?thesis
    by (simp add: alloc_def)
qed

theorem clip_self_witness:
  "wf_heap module_heap \<and> 1 \<le> length module_heap
   \<and> rect (snd (alloc module_heap (Box_init (Rect 0 0 2 2) None None None)) ! 1) = Rect 0 0 2 2
   \<and> \<not> inverted (Rect 0 0 2 2)
   \<and> clip_args (snd (alloc module_heap (Box_init (Rect 0 0 2 2) None None None)))
                (fst (alloc module_heap (Box_init (Rect 0 0 2 2) None None None))) [A_Box 1]
       = Inr (2, module_heap @ [Box_init (Rect 0 0 2 2) None None None,
                                Box_init (Rect 0 0 2 2) None None None])
   \<and> box_at (clip (snd (alloc module_heap (Box_init (Rect 0 0 2 2) None None None)))
                   (fst (alloc module_heap (Box_init (Rect 0 0 2 2) None None None))) [1])
       = Box_init (Rect 0 0 2 2) None None None"
proof -
  have q: "1 \<le> length module_heap" "length module_heap = 1"
    by (simp_all add: page_eval)
  have r: "rect (snd (alloc module_heap (Box_init (Rect 0 0 2 2) None None None)) ! 1) = Rect 0 0 2 2"
    by (simp add: page_eval)
  have ok: "\<not> inverted (Rect 0 0 2 2)"
    by (simp add: inverted_def)
  note T = clip_self [OF wf_module_heap q(1) r]
  from T ok q(2) have a: "clip_args (snd (alloc module_heap (Box_init (Rect 0 0 2 2) None None None)))
                (fst (alloc module_heap (Box_init (Rect 0 0 2 2) None None None))) [A_Box 1]
       = Inr (2, module_heap @ [Box_init (Rect 0 0 2 2) None None None,
                                Box_init (Rect 0 0 2 2) None None None])"
    by simp
  from T ok have b: "box_at (clip (snd (alloc module_heap (Box_init (Rect 0 0 2 2) None None None)))
                   (fst (alloc module_heap (Box_init (Rect 0 0 2 2) None None None))) [1])
       = Box_init (Rect 0 0 2 2) None None None"
    by simp
  from a b ok r q(1) wf_module_heap show ?thesis
    by (intro conjI)
qed

theorem clip_self_counterexample:
  "clip_args (snd (alloc module_heap (Box_init (Rect 0 0 2 2) None None None)))
             (fst (alloc module_heap (Box_init (Rect 0 0 2 2) None None None)))
             [A_Rectangle (Rect 0 0 2 2)]
     = Inl AttributeError
   \<and> clip_args (snd (alloc module_heap (Box_init (Rect 1 0 0 0) None None None)))
               (fst (alloc module_heap (Box_init (Rect 1 0 0 0) None None None))) [A_Box 1]
     = Inr (empty_box, module_heap @ [Box_init (Rect 1 0 0 0) None None None])
   \<and> box_at (empty_box, module_heap @ [Box_init (Rect 1 0 0 0) None None None])
     \<noteq> Box_init (Rect 1 0 0 0) None None None"
  by (simp add: clip_args_def box_at_def page_eval)

subsection \<open>Clipping with no arguments\<close>

text \<open>
  C10. \<^verbatim>\<open>b.clip()\<close> with no rectangle makes a new box with the four coordinates of
  \<^verbatim>\<open>b\<close> and no text, classification or barycenter. Nothing is compared on that path:
  the new object is never the sentinel, also when \<^verbatim>\<open>b\<close> is inverted or is the sentinel
  itself, and the store is otherwise unchanged.
\<close>

theorem clip_no_arguments:
  "clip h b [] = (length h, h @ [Box_init (rect (h ! b)) None None None])
   \<and> rect (box_at (clip h b [])) = rect (h ! b)
   \<and> btext (box_at (clip h b [])) = None
   \<and> classname (box_at (clip h b [])) = None
   \<and> barycenter (box_at (clip h b [])) = None
   \<and> barycenter_y (box_at (clip h b [])) = None
   \<and> (h \<noteq> [] \<longrightarrow> fst (clip h b []) \<noteq> empty_box)
   \<and> (h \<noteq> [] \<and> inverted (rect (h ! b)) \<longrightarrow>
        inverted (rect (box_at (clip h b []))) \<and> fst (clip h b []) \<noteq> empty_box)
   \<and> (wf_heap h \<longrightarrow>
        fst (clip h empty_box []) \<noteq> empty_box
        \<and> rect (box_at (clip h empty_box [])) = empty_rect \<and> inverted empty_rect)"
  by (auto simp: clip_def alloc_def box_at_def empty_box_def wf_heap_def inverted_empty)

theorem clip_no_arguments_witness:
  "module_heap \<noteq> [] \<and> wf_heap module_heap \<and> inverted (rect (module_heap ! empty_box))
   \<and> clip module_heap empty_box [] = (1, module_heap @ [Box_init empty_rect None None None])
   \<and> fst (clip module_heap empty_box []) \<noteq> empty_box
   \<and> inverted (rect (box_at (clip module_heap empty_box [])))"
proof -
  have ne: "module_heap \<noteq> []"
    by (simp add: module_heap_def alloc_def)
  have len: "length module_heap = 1"
    by (simp add: module_heap_def alloc_def)
  have obj: "rect (module_heap ! empty_box) = empty_rect"
    by (simp add: module_heap_def alloc_def empty_box_def)
  note T = clip_no_arguments [of module_heap empty_box]
  from T have c1: "clip module_heap empty_box [] =
      (length module_heap, module_heap @ [Box_init (rect (module_heap ! empty_box)) None None None])"
    by (rule conjunct1)
  from T ne have c2: "fst (clip module_heap empty_box []) \<noteq> empty_box"
    by blast
  from T wf_module_heap have c3: "rect (box_at (clip module_heap empty_box [])) = empty_rect"
    by blast
  have c4: "inverted (rect (box_at (clip module_heap empty_box [])))"
    by (simp add: c3 inverted_empty)
  from c1 c2 c4 show ?thesis
    by (simp add: len obj inverted_empty wf_module_heap ne)
qed

subsection \<open>\<^verbatim>\<open>is_connected_to\<close>\<close>

text \<open>
  C2. For two boxes whose texts are not \<^verbatim>\<open>None\<close>, \<^verbatim>\<open>is_connected_to\<close> returns false
  when either text is blank after stripping (all its characters are white space).
  Otherwise it returns true exactly when the two \<^verbatim>\<open>barycenter_y\<close> are equal and the
  absolute value of the difference \<^verbatim>\<open>self.right - next.left\<close>, as the program computes
  it, is below the tolerance (strictly: the code compares with \<^verbatim>\<open><\<close>), which is 10
  when \<^verbatim>\<open>self.text\<close> ends with \<^verbatim>\<open>(\<close> and 1/2 otherwise; a difference that is infinite
  or NaN is never within the tolerance. So, with equal \<^verbatim>\<open>barycenter_y\<close>, texts that
  are not blank and no trailing \<^verbatim>\<open>(\<close>, a difference of 0.4 connects and a difference of
  0.6 does not. This holds whatever the white space of the text type and the subtraction
  of the number type are.
\<close>

theorem is_connected_to_spec:
  assumes "btext self = Some s" and "btext next = Some t"
  shows "is_connected_to isspace sub self next =
           Inr (if (\<forall>c\<in>set s. isspace c) \<or> (\<forall>c\<in>set t. isspace c) then False
                else barycenter_y self = barycenter_y next
                   \<and> (case sub (right self) (left next) of
                        Some (Fin d) \<Rightarrow>
                          \<bar>d\<bar> < (if s \<noteq> [] \<and> last s = 40 then 10 else 1 / 2)
                      | _ \<Rightarrow> False))
       \<and> (\<not> (\<forall>c\<in>set s. isspace c) \<and> \<not> (\<forall>c\<in>set t. isspace c)
            \<and> barycenter_y self = barycenter_y next \<and> \<not> (s \<noteq> [] \<and> last s = 40)
            \<and> sub (right self) (left next) = Some (Fin d)
          \<longrightarrow> (\<bar>d\<bar> = 4 / 10 \<longrightarrow> is_connected_to isspace sub self next = Inr True)
            \<and> (\<bar>d\<bar> = 6 / 10 \<longrightarrow> is_connected_to isspace sub self next = Inr False))"
proof -
  have main: "is_connected_to isspace sub self next =
           Inr (if (\<forall>c\<in>set s. isspace c) \<or> (\<forall>c\<in>set t. isspace c) then False
                else barycenter_y self = barycenter_y next
                   \<and> (case sub (right self) (left next) of
                        Some (Fin d) \<Rightarrow>
                          \<bar>d\<bar> < (if s \<noteq> [] \<and> last s = 40 then 10 else 1 / 2)
                      | _ \<Rightarrow> False))"
    using assms
    by (simp add: is_connected_to_def strip_empty_iff equal_sub)
  show ?thesis
    by (rule conjI, rule main) (simp add: main)
qed

text \<open>
  Examples. With coordinates that are binary fractions the float subtraction is exact:
  right 1 and left 1.375 connect, right 1 and left 1.625 do not. With exact numbers
  (\<^verbatim>\<open>Fraction\<close>) the difference of 1 and 14/10 is 4/10 and connects, that of 1 and 16/10
  does not, unless the first text ends with \<^verbatim>\<open>(\<close>. A text that is one no-break space is
  blank. And where the subtraction rounds, as it does on the floats 0.5 and \<open>2\<^sup>-\<^sup>6\<^sup>0\<close>,
  whose difference is the float 0.5, the boxes are not connected.
\<close>

theorem is_connected_to_spec_witness:
  "btext (Box_init (Rect 0 0 1 1) (Some (ascii ''ab'')) None (Some 3)) = Some (ascii ''ab'')
   \<and> btext (Box_init (Rect (14 / 10) 0 2 1) (Some (ascii ''cd'')) None (Some 3))
       = Some (ascii ''cd'')
   \<and> is_connected_to unicode_space exact_sub
        (Box_init (Rect 0 0 1 1) (Some (ascii ''ab'')) None (Some 3))
        (Box_init (Rect (11 / 8) 0 2 1) (Some (ascii ''cd'')) None (Some 3)) = Inr True
   \<and> is_connected_to unicode_space exact_sub
        (Box_init (Rect 0 0 1 1) (Some (ascii ''ab'')) None (Some 3))
        (Box_init (Rect (13 / 8) 0 2 1) (Some (ascii ''cd'')) None (Some 3)) = Inr False
   \<and> exact_sub (Fin 1) (Fin (14 / 10)) = Some (Fin (- 4 / 10))
   \<and> is_connected_to unicode_space exact_sub
        (Box_init (Rect 0 0 1 1) (Some (ascii ''ab'')) None (Some 3))
        (Box_init (Rect (14 / 10) 0 2 1) (Some (ascii ''cd'')) None (Some 3)) = Inr True
   \<and> is_connected_to unicode_space exact_sub
        (Box_init (Rect 0 0 1 1) (Some (ascii ''ab'')) None (Some 3))
        (Box_init (Rect (16 / 10) 0 2 1) (Some (ascii ''cd'')) None (Some 3)) = Inr False
   \<and> is_connected_to unicode_space exact_sub
        (Box_init (Rect 0 0 1 1) (Some (ascii ''ab('')) None (Some 3))
        (Box_init (Rect (16 / 10) 0 2 1) (Some (ascii ''cd'')) None (Some 3)) = Inr True
   \<and> is_connected_to unicode_space exact_sub
        (Box_init (Rect 0 0 1 1) (Some (ascii ''ab'')) None (Some 3))
        (Box_init (Rect (11 / 8) 0 2 1) (Some [160]) None (Some 3)) = Inr False
   \<and> is_connected_to unicode_space (\<lambda>l r. Some (Fin (1 / 2)))
        (Box_init (Rect 0 0 (1 / 2) 1) (Some (ascii ''ab'')) None (Some 3))
        (Box_init (Rect (1 / 2 ^ 60) 0 2 1) (Some (ascii ''cd'')) None (Some 3)) = Inr False"
proof -
  have sp: "\<not> unicode_space 97" "\<not> unicode_space 98" "\<not> unicode_space 99"
    "\<not> unicode_space 100" "\<not> unicode_space 40" "unicode_space 160"
    by (simp_all add: unicode_space_def)
  note T = is_connected_to_spec [THEN conjunct1]
  show ?thesis
    using sp
    by (simp add: T [of _ "ascii ''ab''" _ "ascii ''cd''"] T [of _ "ascii ''ab(''" _ "ascii ''cd''"]
        T [of _ "ascii ''ab''" _ "[160]"] ascii_def)
qed

subsection \<open>\<^verbatim>\<open>Histogram.rounder\<close> cannot be applied twice\<close>

text \<open>
  C5. The claim is that rounding a histogram twice to the same tolerance gives what
  rounding it once gives. The code does not get that far. For every \<^verbatim>\<open>Histogram\<close>
  with at least one key and every tolerance other than 0, whatever the arithmetic of
  the keys, \<^verbatim>\<open>rounder\<close> returns an object of the plain class \<^verbatim>\<open>Counter\<close>: it starts from
  \<^verbatim>\<open>Histogram()\<close>, but each \<^verbatim>\<open>c + Histogram(...)\<close> builds a \<^verbatim>\<open>Counter\<close>. A second
  \<^verbatim>\<open>.rounder(tol)\<close> on that result raises \<^verbatim>\<open>AttributeError\<close>. Only the empty
  histogram, whose loop never runs, comes back as a \<^verbatim>\<open>Histogram\<close>.
\<close>

theorem rounder_chain_raises:
  assumes "klass h = Histogram" and "entries h \<noteq> []" and "tol \<noteq> a_zero ar"
  shows "(\<exists>c. call_rounder ar h tol = Inr c \<and> klass c = Counter
            \<and> call_rounder ar c tol = Inl AttributeError)
       \<and> call_rounder ar \<lparr>klass = Histogram, entries = []\<rparr> tol
           = Inr \<lparr>klass = Histogram, entries = []\<rparr>"
proof -
  from assms(2) have ne: "map fst (entries h) \<noteq> []"
    by simp
  from rounder_loop_class [OF assms(3), of h "\<lparr>klass = Histogram, entries = []\<rparr>"
      "map fst (entries h)"] ne
  obtain c where c: "rounder ar h tol = Inr c" "klass c = Counter"
    unfolding rounder_def by blast
  then have "call_rounder ar h tol = Inr c \<and> klass c = Counter
      \<and> call_rounder ar c tol = Inl AttributeError"
    using assms(1) by (simp add: call_rounder_def)
  moreover have "call_rounder ar \<lparr>klass = Histogram, entries = []\<rparr> tol
      = Inr \<lparr>klass = Histogram, entries = []\<rparr>"
    by (simp add: call_rounder_def rounder_def)
  ultimately show ?thesis
    by blast
qed

theorem rounder_chain_raises_witness:
  "klass \<lparr>klass = Histogram, entries = [(1 / 4 :: rat, 2), (1 / 2, 3)]\<rparr> = Histogram
   \<and> entries \<lparr>klass = Histogram, entries = [(1 / 4 :: rat, 2), (1 / 2, 3 :: int)]\<rparr> \<noteq> []
   \<and> (1 :: rat) \<noteq> a_zero exact_arith
   \<and> call_rounder exact_arith \<lparr>klass = Histogram, entries = [(1 / 4, 2), (1 / 2, 3)]\<rparr> 1
       = Inr \<lparr>klass = Counter, entries = [(0, 2), (1, 3)]\<rparr>
   \<and> call_rounder exact_arith \<lparr>klass = Counter, entries = [(0, 2), (1, 3)]\<rparr> 1
       = Inl AttributeError"
proof -
  let ?h = "\<lparr>klass = Histogram, entries = [(1 / 4 :: rat, 2 :: int), (1 / 2, 3)]\<rparr>"
  have z: "(1 :: rat) \<noteq> a_zero exact_arith"
    by (simp add: exact_arith_def)
  have k: "klass ?h = Histogram" "entries ?h \<noteq> []"
    by simp_all
  have fl: "\<lfloor>3 / 4 :: rat\<rfloor> = 0"
    by (rule floor_unique) simp_all
  have ev: "call_rounder exact_arith ?h 1 = Inr \<lparr>klass = Counter, entries = [(0, 2), (1, 3)]\<rparr>"
    by (simp add: call_rounder_def rounder_def private_rounder_def exact_arith_def
        counter_add_def getitem_def fl)
  from rounder_chain_raises [OF k z] obtain c where
    "call_rounder exact_arith ?h 1 = Inr c" "call_rounder exact_arith c 1 = Inl AttributeError"
    by blast
  with ev have "call_rounder exact_arith \<lparr>klass = Counter, entries = [(0, 2), (1, 3)]\<rparr> 1
      = Inl AttributeError"
    by simp
  with ev z show ?thesis
    by simp
qed

subsection \<open>\<^verbatim>\<open>BoxList.bounds\<close>\<close>

text \<open>
  C6. For a non-empty \<^verbatim>\<open>BoxList\<close>, \<^verbatim>\<open>bounds()\<close> returns a new box whose rectangle is
  (least left, least top, greatest right, greatest bottom) over the boxes of the list;
  over the rectangles (0,0,2,2) and (1,1,5,5) that is (0,0,5,5). On the empty list
  \<^verbatim>\<open>bounds()\<close> raises \<^verbatim>\<open>ValueError\<close> and returns nothing.
\<close>

theorem bounds_spec:
  "(bl \<noteq> [] \<longrightarrow>
      bounds h bl =
        Inr (length h,
             h @ [Box_init \<lparr>x1 = Min ((\<lambda>b. left (h ! b)) ` set bl),
                             y1 = Min ((\<lambda>b. top_edge (h ! b)) ` set bl),
                             x2 = Max ((\<lambda>b. right (h ! b)) ` set bl),
                             y2 = Max ((\<lambda>b. bottom (h ! b)) ` set bl)\<rparr> None None None]))
   \<and> (rect (h ! p) = Rect 0 0 2 2 \<and> rect (h ! q) = Rect 1 1 5 5 \<longrightarrow>
        (\<exists>res. bounds h [p, q] = Inr res \<and> rect (box_at res) = Rect 0 0 5 5))
   \<and> bounds h [] = Inl ValueError"
proof -
  have a: "bounds h bl =
        Inr (length h,
             h @ [Box_init \<lparr>x1 = Min ((\<lambda>b. left (h ! b)) ` set bl),
                             y1 = Min ((\<lambda>b. top_edge (h ! b)) ` set bl),
                             x2 = Max ((\<lambda>b. right (h ! b)) ` set bl),
                             y2 = Max ((\<lambda>b. bottom (h ! b)) ` set bl)\<rparr> None None None])"
    if "bl \<noteq> []" for bl
    using that by (simp add: bounds_def py_min_Min py_max_Max alloc_def)
  have b: "\<exists>res. bounds h [p, q] = Inr res \<and> rect (box_at res) = Rect 0 0 5 5"
    if "rect (h ! p) = Rect 0 0 2 2" and "rect (h ! q) = Rect 1 1 5 5"
    using that
    by (simp add: a box_at_def left_def top_edge_def right_def bottom_def Rect_def)
  have c: "bounds h [] = Inl ValueError"
    by (simp add: bounds_def)
  from a b c show ?thesis
    by blast
qed

theorem bounds_spec_witness:
  "[1, 2] \<noteq> ([] :: ref list)
   \<and> rect (page ! 1) = Rect 0 0 2 2 \<and> rect (page ! 2) = Rect 1 1 5 5
   \<and> bounds page [1, 2] = Inr (7, page @ [Box_init (Rect 0 0 5 5) None None None])
   \<and> bounds page [] = Inl ValueError"
proof -
  have r: "rect (page ! 1) = Rect 0 0 2 2" "rect (page ! 2) = Rect 1 1 5 5"
    by (simp_all add: page_eval)
  have l: "length page = 7"
    by (simp add: page_eval)
  have e: "Rect 0 0 5 5 =
     \<lparr>x1 = Min ((\<lambda>b. left (page ! b)) ` set [1, 2]),
      y1 = Min ((\<lambda>b. top_edge (page ! b)) ` set [1, 2]),
      x2 = Max ((\<lambda>b. right (page ! b)) ` set [1, 2]),
      y2 = Max ((\<lambda>b. bottom (page ! b)) ` set [1, 2])\<rparr>"
    by (simp add: page_eval)
  from bounds_spec [of "[1, 2]" page 1 2] r l e show ?thesis
    by simp
qed


subsection \<open>\<^verbatim>\<open>BoxList.inside\<close>\<close>

text \<open>
  C7. \<^verbatim>\<open>bl.inside(rect)\<close> is a new list of exactly the boxes \<open>b\<close> of \<^verbatim>\<open>bl\<close> with
  \<open>rect.left \<le> b.left \<le> b.right \<le> rect.right\<close> and
  \<open>rect.top \<le> b.top \<le> b.bottom \<le> rect.bottom\<close>, in the order of \<^verbatim>\<open>bl\<close>; the store and
  the list it was given are read only. A box (-1,0,1,1) is not inside (0,0,10,10).
\<close>

theorem inside_spec:
  "inside h bl rct =
     filter (\<lambda>b. left (h ! rct) \<le> left (h ! b) \<and> left (h ! b) \<le> right (h ! b)
                \<and> right (h ! b) \<le> right (h ! rct)
                \<and> top_edge (h ! rct) \<le> top_edge (h ! b) \<and> top_edge (h ! b) \<le> bottom (h ! b)
                \<and> bottom (h ! b) \<le> bottom (h ! rct)) bl
   \<and> (rect (h ! rct) = Rect 0 0 10 10 \<and> rect (h ! b) = Rect (-1) 0 1 1
        \<longrightarrow> b \<notin> set (inside h bl rct))"
  by (simp add: inside_filter is_in_rect_def left_def top_edge_def right_def bottom_def
      conj_ac)

theorem inside_spec_witness:
  "rect (page ! 5) = Rect 0 0 10 10 \<and> rect (page ! 4) = Rect (-1) 0 1 1
   \<and> inside page [3, 4, 1, 2, 0] 5 = [3, 1, 2]
   \<and> 4 \<notin> set (inside page [3, 4, 1, 2, 0] 5)"
proof -
  have r: "rect (page ! 5) = Rect 0 0 10 10" "rect (page ! 4) = Rect (-1) 0 1 1"
    by (simp_all add: page_eval)
  have e: "filter (\<lambda>b. left (page ! 5) \<le> left (page ! b) \<and> left (page ! b) \<le> right (page ! b)
                \<and> right (page ! b) \<le> right (page ! 5)
                \<and> top_edge (page ! 5) \<le> top_edge (page ! b)
                \<and> top_edge (page ! b) \<le> bottom (page ! b)
                \<and> bottom (page ! b) \<le> bottom (page ! 5)) [3, 4, 1, 2, 0] = [3, 1, 2]"
    by (simp add: page_eval)
  from inside_spec [of page "[3, 4, 1, 2, 0]" 5 4] r e show ?thesis
    by simp
qed

subsection \<open>\<^verbatim>\<open>BoxList.purge_empty_text\<close>\<close>

text \<open>
  C8. On a list whose boxes all have a text and a \<^verbatim>\<open>classname\<close>,
  \<^verbatim>\<open>purge_empty_text()\<close> returns, in the order of the list, exactly the boxes whose text
  has a character that is not white space or whose \<^verbatim>\<open>classname\<close> is not
  \<^verbatim>\<open>LTTextLineHorizontal\<close>, whatever the white space of the text type is. In the example
  a box of class \<^verbatim>\<open>LTRect\<close> with empty text stays and a text line holding one space
  goes.
\<close>

theorem purge_empty_text_spec:
  assumes "\<forall>b\<in>set bl. btext (h ! b) \<noteq> None \<and> classname (h ! b) \<noteq> None"
  shows "purge_empty_text isspace h bl =
           Inr (filter (\<lambda>b. (case btext (h ! b) of Some s \<Rightarrow> \<exists>x\<in>set s. \<not> isspace x
                                 | None \<Rightarrow> False)
                            \<or> classname (h ! b) \<noteq> Some (ascii ''LTTextLineHorizontal'')) bl)"
  using assms
proof (induction bl)
  case Nil
  then show ?case by simp
next
  case (Cons b bl)
  from Cons.prems obtain s c where sc: "btext (h ! b) = Some s" "classname (h ! b) = Some c"
    by auto
  from Cons.prems have "\<forall>b\<in>set bl. btext (h ! b) \<noteq> None \<and> classname (h ! b) \<noteq> None"
    by simp
  with Cons.IH sc show ?case
    by (simp add: keeps_text_spec)
qed

theorem purge_empty_text_spec_witness:
  "btext (page ! 6) = Some (ascii ''x'')
   \<and> classname (page ! 6) = Some (ascii ''LTTextLineHorizontal'')
   \<and> btext (page ! 5) = Some [] \<and> classname (page ! 5) = Some (ascii ''LTRect'')
   \<and> btext (page ! 4) = Some (ascii '' '')
   \<and> classname (page ! 4) = Some (ascii ''LTTextLineHorizontal'')
   \<and> purge_empty_text unicode_space page [5, 4, 6] = Inr [5, 6]"
proof -
  have a: "\<forall>b\<in>set [5, 4, 6 :: ref]. btext (page ! b) \<noteq> None \<and> classname (page ! b) \<noteq> None"
    by (simp add: page_eval)
  have sp: "unicode_space 32" "\<not> unicode_space 120"
    by (simp_all add: unicode_space_def)
  have e: "btext (page ! 5) = Some []" "classname (page ! 5) = Some (ascii ''LTRect'')"
    "btext (page ! 4) = Some (ascii '' '')"
    "classname (page ! 4) = Some (ascii ''LTTextLineHorizontal'')"
    "btext (page ! 6) = Some (ascii ''x'')"
    "classname (page ! 6) = Some (ascii ''LTTextLineHorizontal'')"
    by (simp_all add: page_eval)
  have n: "ascii ''LTRect'' \<noteq> ascii ''LTTextLineHorizontal''" "ascii '' '' = [32]"
    "ascii ''x'' = [120]"
    by (simp_all add: ascii_def)
  from purge_empty_text_spec [OF a, of unicode_space] e sp n show ?thesis
    by simp
qed

subsection \<open>\<^verbatim>\<open>Box.extend\<close>\<close>

text \<open>
  C9, amended. When \<^verbatim>\<open>self.text\<close> and \<^verbatim>\<open>next.text\<close> are both strings,
  \<^verbatim>\<open>self.extend(next)\<close> changes the object \<^verbatim>\<open>self\<close> in place: afterwards its text is
  the old \<^verbatim>\<open>self.text\<close> followed by the old \<^verbatim>\<open>next.text\<close> and its right edge is
  \<^verbatim>\<open>next.right\<close>; its left, top and bottom edges, \<^verbatim>\<open>barycenter\<close>,
  \<^verbatim>\<open>barycenter_y\<close> and \<^verbatim>\<open>classname\<close> are as before, and every other object of the
  store, \<^verbatim>\<open>next\<close> included when it is not \<^verbatim>\<open>self\<close>, is as before. When either text is
  \<^verbatim>\<open>None\<close> the call raises \<^verbatim>\<open>TypeError\<close> and nothing is changed. \<^verbatim>\<open>extend\<close> returns
  only the changed store; \<^verbatim>\<open>clip\<close> and \<^verbatim>\<open>copy\<close>, the other methods of \<^verbatim>\<open>Box\<close>
  that touch the store, leave every object that was there as it was.
\<close>

theorem extend_spec:
  "(self < length h \<and> btext (h ! self) = Some s \<and> btext (h ! next) = Some t \<longrightarrow>
      (\<exists>h'. extend h self next = Inr h' \<and> length h' = length h
         \<and> btext (h' ! self) = Some (s @ t)
         \<and> right (h' ! self) = right (h ! next)
         \<and> left (h' ! self) = left (h ! self)
         \<and> top_edge (h' ! self) = top_edge (h ! self)
         \<and> bottom (h' ! self) = bottom (h ! self)
         \<and> barycenter (h' ! self) = barycenter (h ! self)
         \<and> barycenter_y (h' ! self) = barycenter_y (h ! self)
         \<and> classname (h' ! self) = classname (h ! self)
         \<and> (\<forall>p. p \<noteq> self \<longrightarrow> h' ! p = h ! p)
         \<and> (next \<noteq> self \<longrightarrow> h' ! next = h ! next)))
   \<and> (btext (h ! self) = None \<or> btext (h ! next) = None \<longrightarrow>
        extend h self next = Inl TypeError)
   \<and> take (length h) (snd (clip h b rectangles)) = h
   \<and> take (length h) (snd (copy h ob)) = h"
proof -
  have a: "\<exists>h'. extend h self next = Inr h' \<and> length h' = length h
         \<and> btext (h' ! self) = Some (s @ t)
         \<and> right (h' ! self) = right (h ! next)
         \<and> left (h' ! self) = left (h ! self)
         \<and> top_edge (h' ! self) = top_edge (h ! self)
         \<and> bottom (h' ! self) = bottom (h ! self)
         \<and> barycenter (h' ! self) = barycenter (h ! self)
         \<and> barycenter_y (h' ! self) = barycenter_y (h ! self)
         \<and> classname (h' ! self) = classname (h ! self)
         \<and> (\<forall>p. p \<noteq> self \<longrightarrow> h' ! p = h ! p)
         \<and> (next \<noteq> self \<longrightarrow> h' ! next = h ! next)"
    if "self < length h" and "btext (h ! self) = Some s" and "btext (h ! next) = Some t"
    using that
    by (simp add: extend_Some left_def top_edge_def right_def bottom_def)
  have c: "take (length h) (snd (clip h b rectangles)) = h"
    by (simp add: clip_def alloc_def split: option.splits)
  have d: "take (length h) (snd (copy h ob)) = h"
    by (simp add: copy_def alloc_def)
  from a c d extend_None [of h self "next"] show ?thesis
    by blast
qed

theorem extend_spec_witness:
  "1 < length page \<and> btext (page ! 1) = Some (ascii ''foo('') \<and> btext (page ! 2) = Some (ascii ''bar'')
   \<and> extend page 1 2 =
       Inr (page[1 := Box_init (Rect 0 0 5 2) (Some (ascii ''foo(bar'')) None (Some 1)])
   \<and> btext (page ! 3) = None \<and> extend page 3 2 = Inl TypeError"
proof -
  have e: "1 < length page" "btext (page ! 1) = Some (ascii ''foo('')" "btext (page ! 2) = Some (ascii ''bar'')"
    "btext (page ! 3) = None"
    by (simp_all add: page_eval)
  note T = extend_spec [of 1 page "ascii ''foo(''" 2 "ascii ''bar''" 0 "[]" 0]
  note U = extend_spec [of 3 page "ascii ''foo(''" 2 "ascii ''bar''" 0 "[]" 0]
  from T e obtain h' where h': "extend page 1 2 = Inr h'" "length h' = length page"
    "btext (h' ! 1) = Some (ascii ''foo('' @ ascii ''bar'')" "right (h' ! 1) = right (page ! 2)"
    "left (h' ! 1) = left (page ! 1)" "top_edge (h' ! 1) = top_edge (page ! 1)"
    "bottom (h' ! 1) = bottom (page ! 1)" "barycenter (h' ! 1) = barycenter (page ! 1)"
    "barycenter_y (h' ! 1) = barycenter_y (page ! 1)" "classname (h' ! 1) = classname (page ! 1)"
    "\<forall>p. p \<noteq> 1 \<longrightarrow> h' ! p = page ! p"
    by auto
  have "h' ! 1 = Box_init (Rect 0 0 5 2) (Some (ascii ''foo(bar'')) None (Some 1)"
    using h'(3-10)
    by (simp add: page_eval)
  with h'(2,11) e(1) have "h' = page[1 := Box_init (Rect 0 0 5 2) (Some (ascii ''foo(bar'')) None (Some 1)]"
    by (auto simp: list_eq_iff_nth_eq nth_list_update)
  moreover from U e have "extend page 3 2 = Inl TypeError"
    by simp
  ultimately show ?thesis
    using e h'(1) by simp
qed

theorem extend_spec_counterexample:
  "btext (page ! 3) = None \<and> extend page 3 2 = Inl TypeError
   \<and> btext (page ! 1) = Some (ascii ''foo('')
   \<and> extend page 1 1 = Inr (page[1 := Box_init (Rect 0 0 2 2) (Some (ascii ''foo(foo('')) None (Some 1)])
   \<and> page[1 := Box_init (Rect 0 0 2 2) (Some (ascii ''foo(foo('')) None (Some 1)] ! 1 \<noteq> page ! 1"
  by (simp add: extend_def page_eval)

end
